theory Spec2Isabelle
  imports Main "HOL-Library.AList"
begin

section \<open>The real-time server of src/server/real\_time\_server.js\<close>

text \<open>
  The class \<open>RealTimeServer\<close> keeps a registry of transport handles (sockets) keyed by
  client id, sends typed messages to one, all or all-but-one client, remembers the last
  message sent, and announces connects, disconnects and messages as events. The model
  passes the server object explicitly: every method takes the state \<open>self\<close> and returns
  the state after the call, or the error it throws. No method of the class mutates the
  object before a statement of it that can throw, so a call that throws leaves the state
  as it was, and \<open>error + state\<close> loses nothing.
\<close>

subsection \<open>Errors\<close>

datatype error =
    FailFastUnlessDefined string    \<comment> \<open>thrown by \<open>failFast.unlessDefined\<close>, with the variable's name\<close>
  | FailFastUnlessTrue string       \<comment> \<open>thrown by \<open>failFast.unlessTrue\<close>, with the message\<close>
  | TypeError                       \<comment> \<open>thrown by the language: a call of, or a property read on, \<open>undefined\<close>;
                                        an assignment to a getter-only property in strict mode\<close>
  | UnhandledErrorEvent             \<comment> \<open>thrown by an event emitter: an \<open>error\<close> event that has no listener\<close>

text \<open>
  Modelled from the spec: the module \<open>fail_fast.js\<close> that the server requires is not among
  the sources. The spec calls a missing connection identifier and a failed condition
  "precondition violations", which are "fatal, immediate failures": \<open>unlessDefined\<close>
  throws when its variable is \<open>undefined\<close> (here \<open>None\<close>), and returns the value otherwise.
\<close>

definition unlessDefined :: "'a option \<Rightarrow> string \<Rightarrow> error + 'a" where
  "unlessDefined variable variableName =
     (case variable of
        None \<Rightarrow> Inl (FailFastUnlessDefined variableName)
      | Some v \<Rightarrow> Inr v)"

text \<open>
  Modelled from the spec: \<open>failFast.unlessTrue\<close> of the same absent module throws, with the
  given message, when its condition is false. Both call sites pass a comparison, so the
  condition is always a boolean.
\<close>

definition unlessTrue :: "bool \<Rightarrow> string \<Rightarrow> error + unit" where
  "unlessTrue variable message =
     (if variable then Inr () else Inl (FailFastUnlessTrue message))"

subsection \<open>Messages, send records and events\<close>

text \<open>
  A message is any value with the two capabilities \<open>name()\<close> and \<open>payload()\<close>; the server
  never looks inside the payload, so its type is a parameter.
\<close>

record 'p message =
  name :: string
  payload :: 'p

datatype sendType = ONE_CLIENT | ALL_CLIENTS | ALL_CLIENTS_BUT_ONE

text \<open>
  The object literal handed to \<open>recordServerMessage\<close>. \<open>broadcastToAllClients\<close> builds it
  without a \<open>clientId\<close> property, which reads as \<open>undefined\<close>: \<open>None\<close>.
\<close>

record 'p messageInfo =
  message :: "'p message"
  clientId :: "string option"
  type :: sendType

datatype 'p event =
    CLIENT_DISCONNECT string
  | CLIENT_CONNECT string
  | CLIENT_MESSAGE string "'p message"
  | SERVER_MESSAGE "'p messageInfo"

subsection \<open>Sockets and the values a registry lookup can yield\<close>

text \<open>
  Two kinds of transport handle reach the server: the \<open>NullSocket\<close> of this file, built by
  \<open>connectNullClient\<close>, and the socket that socket.io passes to the \<open>connection\<close> handler.
  Each carries its \<open>id\<close> property, which may be \<open>undefined\<close> (\<open>None\<close>): \<open>connectClient\<close> and
  \<open>disconnectClient\<close> guard against that.
\<close>

datatype socket = NullSocket "string option" | IoSocket "string option"

fun socket_id :: "socket \<Rightarrow> string option" where
  "socket_id (NullSocket i) = i"
| "socket_id (IoSocket i) = i"

text \<open>\<open>socket.isNull === true\<close>: the getter of \<open>NullSocket\<close> returns \<open>true\<close>; a socket.io
  socket has no such property.\<close>

fun isNull :: "socket \<Rightarrow> bool" where
  "isNull (NullSocket i) = True"
| "isNull (IoSocket i) = False"

text \<open>
  The registry \<open>_socketIoConnections\<close> is created by the object literal \<open>{}\<close>, an ordinary
  object whose prototype is \<open>Object.prototype\<close>. A read \<open>connections[k]\<close> therefore yields
  the socket stored under the own property \<open>k\<close>, or else whatever the prototype chain
  holds under that name. What the server then does with the value depends only on
  whether it is \<open>undefined\<close>, a socket, the \<open>broadcast\<close> object of a socket (it has an \<open>emit\<close>
  method and nothing else the server uses), or some other defined value (a function, a
  string, a boolean, \<open>Object.prototype\<close> itself), which has neither \<open>emit\<close>, \<open>broadcast\<close>,
  \<open>isNull\<close> nor \<open>id\<close>.
\<close>

datatype jsval = Undefined | Socket socket | Broadcast socket | Other

record jsobject =
  own :: "(string \<times> socket) list"    \<comment> \<open>own properties, in insertion order\<close>
  proto :: "socket option"            \<comment> \<open>the prototype: \<open>None\<close> is \<open>Object.prototype\<close>\<close>

text \<open>The property names of \<open>Object.prototype\<close> (ECMAScript with Annex B, as in Node.js).\<close>

definition objectPrototype :: "string list" where
  "objectPrototype =
     [''constructor'', ''__defineGetter__'', ''__defineSetter__'', ''hasOwnProperty'',
      ''__lookupGetter__'', ''__lookupSetter__'', ''isPrototypeOf'',
      ''propertyIsEnumerable'', ''toString'', ''valueOf'', ''__proto__'',
      ''toLocaleString'']"

text \<open>A property read on \<open>Object.prototype\<close>: every one of its names yields a defined
  value (a function, or for \<open>__proto__\<close> the prototype object itself).\<close>

definition objectPrototypeProperty :: "string \<Rightarrow> jsval" where
  "objectPrototypeProperty k = (if k \<in> set objectPrototype then Other else Undefined)"

text \<open>
  A property read on a \<open>NullSocket\<close> with the given id, as the class declares it: the data
  property \<open>id\<close>, the getter \<open>isNull\<close> (it returns \<open>true\<close>), the method \<open>emit\<close>, the getter
  \<open>broadcast\<close> (it returns an object whose only property is \<open>emit\<close>), and behind them
  the names of \<open>Object.prototype\<close>.
\<close>

definition nullSocketProperty :: "string option \<Rightarrow> string \<Rightarrow> jsval" where
  "nullSocketProperty i k =
     (if k = ''id'' then (case i of None \<Rightarrow> Undefined | Some c \<Rightarrow> Other)
      else if k = ''isNull'' then Other
      else if k = ''emit'' then Other
      else if k = ''broadcast'' then Broadcast (NullSocket i)
      else objectPrototypeProperty k)"

text \<open>
  Modelled from the spec: the socket of socket.io is not part of the repository. A
  property read on it yields what the transport contract names, "a handle exposing a
  unique identifier and an emit-by-name operation", and the \<open>broadcast\<close> object that
  \<open>broadcastToAllClientsButOne\<close> uses; behind them the names of \<open>Object.prototype\<close>.
\<close>

definition ioSocketProperty :: "string option \<Rightarrow> string \<Rightarrow> jsval" where
  "ioSocketProperty i k =
     (if k = ''id'' then (case i of None \<Rightarrow> Undefined | Some c \<Rightarrow> Other)
      else if k = ''emit'' then Other
      else if k = ''broadcast'' then Broadcast (IoSocket i)
      else objectPrototypeProperty k)"

text \<open>
  A property read on the registry that finds no own property goes to the prototype.
  That is \<open>Object.prototype\<close> (\<open>None\<close>) until an assignment to \<open>__proto__\<close> has made a socket
  the prototype (see \<open>setProperty\<close>); the accessor \<open>__proto__\<close> then yields that socket,
  and every other name is read on the socket.
\<close>

fun inherited :: "socket option \<Rightarrow> string \<Rightarrow> jsval" where
  "inherited None k = objectPrototypeProperty k"
| "inherited (Some (NullSocket i)) k =
     (if k = ''__proto__'' then Socket (NullSocket i) else nullSocketProperty i k)"
| "inherited (Some (IoSocket i)) k =
     (if k = ''__proto__'' then Socket (IoSocket i) else ioSocketProperty i k)"

text \<open>\<open>Object.keys(obj)\<close>: the names of the own properties.\<close>

definition objectKeys :: "jsobject \<Rightarrow> string list" where
  "objectKeys obj = map fst (own obj)"

text \<open>\<open>obj[k]\<close>.\<close>

definition getProperty :: "jsobject \<Rightarrow> string \<Rightarrow> jsval" where
  "getProperty obj k =
     (case map_of (own obj) k of
        Some sock \<Rightarrow> Socket sock
      | None \<Rightarrow> inherited (proto obj) k)"

text \<open>
  Inherited accessor properties that have a getter and no setter: \<open>isNull\<close> and
  \<open>broadcast\<close> of the class \<open>NullSocket\<close>. The file is in strict mode, where an assignment
  that finds such a property throws. The properties of a socket.io socket are taken to
  be data properties, as above.
\<close>

fun getterOnly :: "socket option \<Rightarrow> string \<Rightarrow> bool" where
  "getterOnly (Some (NullSocket i)) k = (k = ''isNull'' \<or> k = ''broadcast'')"
| "getterOnly (Some (IoSocket i)) k = False"
| "getterOnly None k = False"

text \<open>
  \<open>obj[k] = sock\<close>. An own property is overwritten in place. Otherwise the prototype chain
  decides: the name \<open>__proto__\<close> is the accessor of \<open>Object.prototype\<close>, whose setter makes
  the assigned object the prototype and creates no property; a getter-only accessor
  throws; any other name gets a new own property, after the existing ones.
\<close>

definition setProperty :: "jsobject \<Rightarrow> string \<Rightarrow> socket \<Rightarrow> error + jsobject" where
  "setProperty obj k sock =
     (if k \<in> set (objectKeys obj) then Inr (obj\<lparr>own := AList.update k sock (own obj)\<rparr>)
      else if k = ''__proto__'' then Inr (obj\<lparr>proto := Some sock\<rparr>)
      else if getterOnly (proto obj) k then Inl TypeError
      else Inr (obj\<lparr>own := AList.update k sock (own obj)\<rparr>))"

text \<open>\<open>delete obj[k]\<close> removes an own property and nothing else.\<close>

definition deleteProperty :: "jsobject \<Rightarrow> string \<Rightarrow> jsobject" where
  "deleteProperty obj k = obj\<lparr>own := AList.delete k (own obj)\<rparr>"

subsection \<open>The server object\<close>

datatype httpServer = HttpServer | NullHttpServer

datatype io = SocketIo | NullIo              \<comment> \<open>\<open>this._io\<close>: the socket.io module, or \<open>nullIo\<close>\<close>

datatype ioServer = SocketIoServer | NullIoServer

text \<open>\<open>this._io(this._nodeHttpServer)\<close>: \<open>nullIo\<close> returns a \<open>NullIoServer\<close>.\<close>

fun callIo :: "io \<Rightarrow> ioServer" where
  "callIo SocketIo = SocketIoServer"
| "callIo NullIo = NullIoServer"

text \<open>
  A call the server makes on the transport: \<open>socket.emit\<close>, \<open>socket.broadcast.emit\<close> or
  \<open>this._ioServer.emit\<close>, with the message's name and payload. The null transport
  discards what it is given; the model logs every call that returns, which is what makes
  "delivered to this handle and no other" a statement about the state.
\<close>

datatype 'p transportCall =
    SocketEmit socket string 'p
  | BroadcastEmit socket string 'p
  | ServerEmit ioServer string 'p

text \<open>
  The fields of the class, and two logs: \<open>emitted\<close> holds the events passed to the
  \<open>emit\<close> of \<open>EventEmitter\<close>, oldest first (listeners are taken to return normally and not
  to call back into the server), and \<open>transport\<close> the transport calls. \<open>_ioServer\<close> and
  \<open>_lastSentMessage\<close> are not assigned by the constructor, so they start \<open>undefined\<close>.
  The node HTTP server is only handed to socket.io and is not kept in the model.
\<close>

record 'p state =
  socketIoConnections :: jsobject
  io :: io
  ioServer :: "ioServer option"
  lastSentMessage :: "'p messageInfo option"
  emitted :: "'p event list"
  transport :: "'p transportCall list"

definition RealTimeServer :: "httpServer option \<Rightarrow> error + 'p state" where
  "RealTimeServer httpServer =
     (case unlessDefined httpServer ''httpServer'' of
        Inl e \<Rightarrow> Inl e
      | Inr h \<Rightarrow>
          Inr \<lparr>socketIoConnections = \<lparr>own = [], proto = None\<rparr>,
               io = SocketIo,
               ioServer = None,
               lastSentMessage = None,
               emitted = [],
               transport = []\<rparr>)"

text \<open>\<open>createNull\<close> constructs a server over a \<open>NullHttpServer\<close>, which is defined, and
  replaces \<open>_io\<close>.\<close>

definition createNull :: "'p state" where
  "createNull =
     \<lparr>socketIoConnections = \<lparr>own = [], proto = None\<rparr>,
      io = NullIo,
      ioServer = None,
      lastSentMessage = None,
      emitted = [],
      transport = []\<rparr>"

text \<open>\<open>self.emit(EVENT, argument)\<close> of \<open>EventEmitter\<close>.\<close>

definition emitEvent :: "'p state \<Rightarrow> 'p event \<Rightarrow> 'p state" where
  "emitEvent self e = self\<lparr>emitted := emitted self @ [e]\<rparr>"

text \<open>A transport call that returns is added to the log.\<close>

definition logCall :: "'p state \<Rightarrow> 'p transportCall \<Rightarrow> 'p state" where
  "logCall self c = self\<lparr>transport := transport self @ [c]\<rparr>"

text \<open>The constructor's result for a defined HTTP server, by name.\<close>

definition constructed :: "'p state" where
  "constructed =
     \<lparr>socketIoConnections = \<lparr>own = [], proto = None\<rparr>,
      io = SocketIo,
      ioServer = None,
      lastSentMessage = None,
      emitted = [],
      transport = []\<rparr>"

text \<open>\<open>v.broadcast\<close>: only a socket has the property.\<close>

fun valueBroadcast :: "jsval \<Rightarrow> jsval" where
  "valueBroadcast (Socket sock) = Broadcast sock"
| "valueBroadcast (Broadcast sock) = Undefined"
| "valueBroadcast Other = Undefined"
| "valueBroadcast Undefined = Undefined"

subsection \<open>The functions of the module\<close>

definition recordServerMessage :: "'p state \<Rightarrow> 'p messageInfo \<Rightarrow> 'p state" where
  "recordServerMessage self messageInfo =
     emitEvent (self\<lparr>lastSentMessage := Some messageInfo\<rparr>) (SERVER_MESSAGE messageInfo)"

definition handleClientMessage :: "'p state \<Rightarrow> string \<Rightarrow> 'p message \<Rightarrow> 'p state" where
  "handleClientMessage self cid msg = emitEvent self (CLIENT_MESSAGE cid msg)"

definition connectClient :: "'p state \<Rightarrow> socket \<Rightarrow> error + 'p state" where
  "connectClient self socket =
     (case unlessDefined (socket_id socket) ''socket.id'' of
        Inl e \<Rightarrow> Inl e
      | Inr key \<Rightarrow>
          (case setProperty (socketIoConnections self) key socket of
             Inl e \<Rightarrow> Inl e
           | Inr connections \<Rightarrow>
               Inr (emitEvent (self\<lparr>socketIoConnections := connections\<rparr>) (CLIENT_CONNECT key))))"

definition disconnectClient :: "'p state \<Rightarrow> socket \<Rightarrow> error + 'p state" where
  "disconnectClient self socket =
     (case unlessDefined (socket_id socket) ''socket.id'' of
        Inl e \<Rightarrow> Inl e
      | Inr key \<Rightarrow>
          Inr (emitEvent
                 (self\<lparr>socketIoConnections := deleteProperty (socketIoConnections self) key\<rparr>)
                 (CLIENT_DISCONNECT key)))"

definition lookUpSocket :: "'p state \<Rightarrow> string \<Rightarrow> error + jsval" where
  "lookUpSocket self cid =
     (let socket = getProperty (socketIoConnections self) cid in
      case unlessTrue (socket \<noteq> Undefined)
             (''attempted to look up socket that isn't connected: ['' @ cid @ '']'') of
        Inl e \<Rightarrow> Inl e
      | Inr u \<Rightarrow> Inr socket)"

subsection \<open>The emit operations of the transport\<close>

text \<open>
  Modelled from the spec: the socket of socket.io is not part of the repository. The
  transport contract names "an emit-by-name operation" on the handle. socket.io does not
  send the event names it reserves: it emits them locally, on the socket as an event
  emitter, also when the call is \<open>socket.broadcast.emit\<close>. Of these, \<open>error\<close> throws,
  since the server registers no listener for it, and \<open>disconnect\<close> runs the listener that
  the connection handler of \<open>trackSocketIoConnections\<close> registered on the socket, which
  is \<open>disconnectClient\<close>. Every other name is a call on the handle that returns.
\<close>

definition ioSocketEmit ::
  "socket \<Rightarrow> 'p transportCall \<Rightarrow> string \<Rightarrow> 'p state \<Rightarrow> error + 'p state" where
  "ioSocketEmit socket call n self =
     (if n = ''error'' then Inl UnhandledErrorEvent
      else if n = ''disconnect'' then disconnectClient (logCall self call) socket
      else Inr (logCall self call))"

text \<open>
  \<open>v.emit(name, payload)\<close> for a value read from the registry. The \<open>emit\<close> of a
  \<open>NullSocket\<close>, and of the object its getter \<open>broadcast\<close> returns, has an empty body: the
  call returns whatever the name. On a value that is neither a socket nor the
  \<open>broadcast\<close> object of one, \<open>v.emit\<close> is \<open>undefined\<close> and the call throws (as does the
  property read when \<open>v\<close> itself is \<open>undefined\<close>).
\<close>

fun valueEmit :: "jsval \<Rightarrow> string \<Rightarrow> 'p \<Rightarrow> 'p state \<Rightarrow> error + 'p state" where
  "valueEmit (Socket (NullSocket i)) n p self =
     Inr (logCall self (SocketEmit (NullSocket i) n p))"
| "valueEmit (Socket (IoSocket i)) n p self =
     ioSocketEmit (IoSocket i) (SocketEmit (IoSocket i) n p) n self"
| "valueEmit (Broadcast (NullSocket i)) n p self =
     Inr (logCall self (BroadcastEmit (NullSocket i) n p))"
| "valueEmit (Broadcast (IoSocket i)) n p self =
     ioSocketEmit (IoSocket i) (BroadcastEmit (IoSocket i) n p) n self"
| "valueEmit Other n p self = Inl TypeError"
| "valueEmit Undefined n p self = Inl TypeError"

text \<open>
  Modelled from the spec: the server of socket.io is not part of the repository. Its
  \<open>emit\<close> is the operation that delivers a named message to every connected client, and
  is taken to return. The names that socket.io reserves on the server (\<open>connection\<close>,
  \<open>connect\<close>) are not sent either: they reach the handlers that \<open>start\<close> registered, with
  the payload in the place of a socket, and what those do depends on the payload. That
  is not modelled, and the property of a completed broadcast is stated for the null
  transport.
\<close>

definition ioServerEmit :: "string \<Rightarrow> 'p \<Rightarrow> 'p state \<Rightarrow> error + 'p state" where
  "ioServerEmit n p self = Inr (logCall self (ServerEmit SocketIoServer n p))"

text \<open>\<open>this._ioServer.emit(name, payload)\<close>: the \<open>emit\<close> of \<open>NullIoServer\<close> has an empty
  body.\<close>

fun serverEmit :: "ioServer \<Rightarrow> string \<Rightarrow> 'p \<Rightarrow> 'p state \<Rightarrow> error + 'p state" where
  "serverEmit NullIoServer n p self = Inr (logCall self (ServerEmit NullIoServer n p))"
| "serverEmit SocketIoServer n p self = ioServerEmit n p self"

subsection \<open>The methods of the class\<close>

text \<open>\<open>start\<close> creates the transport server; the handlers it registers are the steps
  \<open>IoConnection\<close>, \<open>IoDisconnect\<close> and \<open>IoClientMessage\<close> below.\<close>

definition start :: "'p state \<Rightarrow> 'p state" where
  "start self = self\<lparr>ioServer := Some (callIo (io self))\<rparr>"

text \<open>\<open>stop\<close> reads \<open>this._ioServer.close\<close>, which throws before \<open>start\<close>; closing the
  transport changes no field of the server.\<close>

definition stop :: "'p state \<Rightarrow> error + 'p state" where
  "stop self = (case ioServer self of None \<Rightarrow> Inl TypeError | Some server \<Rightarrow> Inr self)"

definition sendToOneClient :: "'p state \<Rightarrow> string \<Rightarrow> 'p message \<Rightarrow> error + 'p state" where
  "sendToOneClient self cid msg =
     (case lookUpSocket self cid of
        Inl e \<Rightarrow> Inl e
      | Inr socket \<Rightarrow>
          (case valueEmit socket (name msg) (payload msg) self of
             Inl e \<Rightarrow> Inl e
           | Inr self' \<Rightarrow>
               Inr (recordServerMessage self'
                      \<lparr>message = msg, clientId = Some cid, type = ONE_CLIENT\<rparr>)))"

definition broadcastToAllClients :: "'p state \<Rightarrow> 'p message \<Rightarrow> error + 'p state" where
  "broadcastToAllClients self msg =
     (case ioServer self of
        None \<Rightarrow> Inl TypeError
      | Some server \<Rightarrow>
          (case serverEmit server (name msg) (payload msg) self of
             Inl e \<Rightarrow> Inl e
           | Inr self' \<Rightarrow>
               Inr (recordServerMessage self'
                      \<lparr>message = msg, clientId = None, type = ALL_CLIENTS\<rparr>)))"

definition broadcastToAllClientsButOne ::
  "'p state \<Rightarrow> string \<Rightarrow> 'p message \<Rightarrow> error + 'p state" where
  "broadcastToAllClientsButOne self clientToExclude msg =
     (case lookUpSocket self clientToExclude of
        Inl e \<Rightarrow> Inl e
      | Inr socket \<Rightarrow>
          (case valueEmit (valueBroadcast socket) (name msg) (payload msg) self of
             Inl e \<Rightarrow> Inl e
           | Inr self' \<Rightarrow>
               Inr (recordServerMessage self'
                      \<lparr>message = msg, clientId = Some clientToExclude,
                       type = ALL_CLIENTS_BUT_ONE\<rparr>)))"

definition getLastSentMessage :: "'p state \<Rightarrow> 'p messageInfo option" where
  "getLastSentMessage self = lastSentMessage self"

definition isClientConnected :: "'p state \<Rightarrow> string \<Rightarrow> bool" where
  "isClientConnected self cid =
     (getProperty (socketIoConnections self) cid \<noteq> Undefined)"

definition numberOfActiveConnections :: "'p state \<Rightarrow> nat" where
  "numberOfActiveConnections self = length (objectKeys (socketIoConnections self))"

definition simulateClientMessage :: "'p state \<Rightarrow> string \<Rightarrow> 'p message \<Rightarrow> 'p state" where
  "simulateClientMessage self cid msg = handleClientMessage self cid msg"

definition connectNullClient :: "'p state \<Rightarrow> string \<Rightarrow> error + 'p state" where
  "connectNullClient self cid = connectClient self (NullSocket (Some cid))"

text \<open>
  \<open>socket.isNull === true\<close> is false for every value that is not a \<open>NullSocket\<close>: a
  socket.io socket, and the inherited values, have no \<open>isNull\<close> property.
\<close>

definition disconnectNullClient :: "'p state \<Rightarrow> string \<Rightarrow> error + 'p state" where
  "disconnectNullClient self cid =
     (case lookUpSocket self cid of
        Inl e \<Rightarrow> Inl e
      | Inr v \<Rightarrow>
          (case v of
             Socket socket \<Rightarrow>
               (case unlessTrue (isNull socket)
                       (''Attempted to disconnect non-null client: ['' @ cid @ '']'') of
                  Inl e \<Rightarrow> Inl e
                | Inr u \<Rightarrow> disconnectClient self socket)
           | _ \<Rightarrow>
               Inl (FailFastUnlessTrue
                      (''Attempted to disconnect non-null client: ['' @ cid @ '']''))))"

subsection \<open>Sequences of calls\<close>

text \<open>
  Everything that can happen to a server: a call of a public method that changes it, or
  one of the handlers that \<open>start\<close> registers with socket.io being invoked (a connection,
  a disconnect, a decoded client message on the socket with the given id).
\<close>

datatype 'p op =
    Start
  | Stop
  | SendToOneClient string "'p message"
  | BroadcastToAllClients "'p message"
  | BroadcastToAllClientsButOne string "'p message"
  | SimulateClientMessage string "'p message"
  | ConnectNullClient string
  | DisconnectNullClient string
  | IoConnection socket
  | IoDisconnect socket
  | IoClientMessage string "'p message"

fun step :: "'p state \<Rightarrow> 'p op \<Rightarrow> error + 'p state" where
  "step self Start = Inr (start self)"
| "step self Stop = stop self"
| "step self (SendToOneClient c m) = sendToOneClient self c m"
| "step self (BroadcastToAllClients m) = broadcastToAllClients self m"
| "step self (BroadcastToAllClientsButOne c m) = broadcastToAllClientsButOne self c m"
| "step self (SimulateClientMessage c m) = Inr (simulateClientMessage self c m)"
| "step self (ConnectNullClient c) = connectNullClient self c"
| "step self (DisconnectNullClient c) = disconnectNullClient self c"
| "step self (IoConnection sock) = connectClient self sock"
| "step self (IoDisconnect sock) = disconnectClient self sock"
| "step self (IoClientMessage c m) = Inr (handleClientMessage self c m)"

text \<open>A call that throws leaves the server as it was, and the caller goes on.\<close>

definition exec :: "'p state \<Rightarrow> 'p op \<Rightarrow> 'p state" where
  "exec self x = (case step self x of Inl e \<Rightarrow> self | Inr self' \<Rightarrow> self')"

fun run :: "'p state \<Rightarrow> 'p op list \<Rightarrow> 'p state" where
  "run self [] = self"
| "run self (x # xs) = run (exec self x) xs"

definition completes :: "'p state \<Rightarrow> 'p op \<Rightarrow> bool" where
  "completes self x = (case step self x of Inl e \<Rightarrow> False | Inr self' \<Rightarrow> True)"

text \<open>The number of calls of a sequence that satisfy \<open>P\<close> in the state they are made in.\<close>

fun countCalls :: "('p state \<Rightarrow> 'p op \<Rightarrow> bool) \<Rightarrow> 'p state \<Rightarrow> 'p op list \<Rightarrow> nat" where
  "countCalls P self [] = 0"
| "countCalls P self (x # xs) = (if P self x then 1 else 0) + countCalls P (exec self x) xs"

subsection \<open>Notions the properties are stated with\<close>

text \<open>The transport handle the registry yields for a client id, if it yields one: the
  client is connected, with that handle.\<close>

definition registeredSocket :: "'p state \<Rightarrow> string \<Rightarrow> socket option" where
  "registeredSocket self cid =
     (case getProperty (socketIoConnections self) cid of
        Socket sock \<Rightarrow> Some sock
      | _ \<Rightarrow> None)"

text \<open>A send operation that completes.\<close>

fun sendCompletes :: "'p state \<Rightarrow> 'p op \<Rightarrow> bool" where
  "sendCompletes self (SendToOneClient c m) = completes self (SendToOneClient c m)"
| "sendCompletes self (BroadcastToAllClients m) = completes self (BroadcastToAllClients m)"
| "sendCompletes self (BroadcastToAllClientsButOne c m) =
     completes self (BroadcastToAllClientsButOne c m)"
| "sendCompletes self x = False"

text \<open>A connect that completes, one that moreover adds a key to the registry, and a
  disconnect that completes.\<close>

fun connects :: "'p state \<Rightarrow> 'p op \<Rightarrow> bool" where
  "connects self (ConnectNullClient c) = completes self (ConnectNullClient c)"
| "connects self x = False"

fun connectsNewId :: "'p state \<Rightarrow> 'p op \<Rightarrow> bool" where
  "connectsNewId self (ConnectNullClient c) =
     (completes self (ConnectNullClient c) \<and> c \<notin> set (objectKeys (socketIoConnections self)))"
| "connectsNewId self x = False"

fun disconnects :: "'p state \<Rightarrow> 'p op \<Rightarrow> bool" where
  "disconnects self (DisconnectNullClient c) = completes self (DisconnectNullClient c)"
| "disconnects self x = False"

text \<open>
  The calls of the substitute transport's life cycle. A connect under the id \<open>__proto__\<close>
  is set apart: it replaces the prototype of the registry instead of adding a key.
\<close>

fun lifecycle :: "'p op \<Rightarrow> bool" where
  "lifecycle (ConnectNullClient c) = (c \<noteq> ''__proto__'')"
| "lifecycle (DisconnectNullClient c) = True"
| "lifecycle x = False"

text \<open>
  In the spec's words: whether the id "has been connected and not since disconnected"
  by a sequence of calls, \<open>b\<close> being whether it was connected before the sequence.
\<close>

fun connectedNotSinceDisconnected :: "bool \<Rightarrow> string \<Rightarrow> 'p op list \<Rightarrow> bool" where
  "connectedNotSinceDisconnected b c [] = b"
| "connectedNotSinceDisconnected b c (x # xs) =
     connectedNotSinceDisconnected
       (if x = ConnectNullClient c then True
        else if x = DisconnectNullClient c then False
        else b) c xs"

text \<open>
  The registry as a life cycle of null clients leaves it: \<open>Object.prototype\<close> is still its
  prototype, and every key holds the \<open>NullSocket\<close> made for that id.
\<close>

definition nullRegistry :: "jsobject \<Rightarrow> bool" where
  "nullRegistry obj =
     (proto obj = None \<and> distinct (objectKeys obj) \<and>
      list_all (\<lambda>(k, sock). sock = NullSocket (Some k)) (own obj))"

section \<open>Properties\<close>

lemmas server_defs =
  sendToOneClient_def broadcastToAllClients_def broadcastToAllClientsButOne_def
  lookUpSocket_def recordServerMessage_def emitEvent_def unlessTrue_def unlessDefined_def
  getLastSentMessage_def connectClient_def disconnectClient_def connectNullClient_def
  disconnectNullClient_def handleClientMessage_def simulateClientMessage_def
  logCall_def ioSocketEmit_def ioServerEmit_def

lemmas eval_defs =
  server_defs createNull_def constructed_def exec_def completes_def start_def stop_def
  setProperty_def deleteProperty_def getProperty_def objectKeys_def objectPrototype_def
  objectPrototypeProperty_def nullSocketProperty_def ioSocketProperty_def
  registeredSocket_def isClientConnected_def numberOfActiveConnections_def

subsection \<open>Sending to one client\<close>

text \<open>
  The constructor returns \<open>constructed\<close> for every defined HTTP server.
\<close>

lemma RealTimeServer_constructed: "RealTimeServer (Some h) = Inr constructed"
  by (simp add: RealTimeServer_def unlessDefined_def constructed_def)




subsection \<open>Broadcasting to all clients\<close>




subsection \<open>Inbound messages\<close>

text \<open>
  C7. For every connected client id and every message, \<open>simulateClientMessage\<close> emits
  exactly one event, \<open>CLIENT_MESSAGE\<close> with that id and that message, and changes nothing
  else: the registry and the last sent record are as before.
\<close>

theorem simulateClientMessage_connected:
  assumes "registeredSocket self cid = Some sock"
  shows "simulateClientMessage self cid msg
          = self\<lparr>emitted := emitted self @ [CLIENT_MESSAGE cid msg]\<rparr>
      \<and> socketIoConnections (simulateClientMessage self cid msg) = socketIoConnections self
      \<and> getLastSentMessage (simulateClientMessage self cid msg) = getLastSentMessage self"
  by (simp add: server_defs)

theorem simulateClientMessage_connected_witness:
  "registeredSocket (exec (createNull :: string state) (ConnectNullClient ''c1'')) ''c1''
     = Some (NullSocket (Some ''c1''))
   \<and> emitted (simulateClientMessage (exec (createNull :: string state) (ConnectNullClient ''c1''))
                ''c1'' \<lparr>name = ''draw'', payload = ''payloadA''\<rparr>)
     = [CLIENT_CONNECT ''c1'', CLIENT_MESSAGE ''c1'' \<lparr>name = ''draw'', payload = ''payloadA''\<rparr>]"
proof -
  define s where "s = exec (createNull :: string state) (ConnectNullClient ''c1'')"
  have h: "registeredSocket s ''c1'' = Some (NullSocket (Some ''c1''))"
    by (simp add: s_def eval_defs)
  have e: "emitted s = [CLIENT_CONNECT ''c1'']"
    by (simp add: s_def eval_defs)
  have "registeredSocket s ''c1'' = Some (NullSocket (Some ''c1''))
   \<and> emitted (simulateClientMessage s ''c1'' \<lparr>name = ''draw'', payload = ''payloadA''\<rparr>)
     = [CLIENT_CONNECT ''c1'', CLIENT_MESSAGE ''c1'' \<lparr>name = ''draw'', payload = ''payloadA''\<rparr>]"
    using h simulateClientMessage_connected[OF h, of "\<lparr>name = ''draw'', payload = ''payloadA''\<rparr>"]
    by (simp add: e)
  then show ?thesis unfolding s_def .
qed

text \<open>
  C9. \<open>simulateClientMessage\<close> makes no connectivity check: for every client id, connected
  or not, and every message, it completes and emits \<open>CLIENT_MESSAGE\<close> with that id and
  that message.
\<close>

theorem simulateClientMessage_unchecked:
  "completes self (SimulateClientMessage cid msg)
   \<and> emitted (exec self (SimulateClientMessage cid msg))
       = emitted self @ [CLIENT_MESSAGE cid msg]"
  by (simp add: completes_def exec_def server_defs)

text \<open>An id that never connected.\<close>

theorem simulateClientMessage_unchecked_witness:
  "\<not> isClientConnected (createNull :: string state) ''ghost''
   \<and> completes (createNull :: string state)
        (SimulateClientMessage ''ghost'' \<lparr>name = ''draw'', payload = ''p''\<rparr>)
   \<and> emitted (exec (createNull :: string state)
                (SimulateClientMessage ''ghost'' \<lparr>name = ''draw'', payload = ''p''\<rparr>))
       = [CLIENT_MESSAGE ''ghost'' \<lparr>name = ''draw'', payload = ''p''\<rparr>]"
proof -
  have "\<not> isClientConnected (createNull :: string state) ''ghost''"
    by (simp add: eval_defs)
  moreover have "emitted (createNull :: string state) = []"
    by (simp add: createNull_def)
  ultimately show ?thesis
    using simulateClientMessage_unchecked
      [of "createNull :: string state" "''ghost''" "\<lparr>name = ''draw'', payload = ''p''\<rparr>"]
    by simp
qed

subsection \<open>The last sent message\<close>

lemma step_lastSentMessage:
  assumes "step self x = Inr self'" and "\<not> sendCompletes self x"
  shows "lastSentMessage self' = lastSentMessage self"
  using assms
  by (cases x)
     (auto simp: server_defs completes_def start_def stop_def
           split: sum.splits option.splits jsval.splits if_splits)

lemma run_lastSentMessage:
  "countCalls sendCompletes self xs = 0 \<Longrightarrow>
   lastSentMessage (run self xs) = lastSentMessage self"
proof (induction xs arbitrary: self)
  case Nil
  then show ?case by simp
next
  case (Cons x xs)
  then have quiet: "\<not> sendCompletes self x"
    and rest: "countCalls sendCompletes (exec self x) xs = 0"
    by (auto split: if_splits)
  have "lastSentMessage (exec self x) = lastSentMessage self"
    using step_lastSentMessage[OF _ quiet] by (auto simp: exec_def split: sum.splits)
  with Cons.IH[OF rest] show ?case by simp
qed

text \<open>
  C10. On a freshly constructed server (by the constructor or by \<open>createNull\<close>), after any
  sequence of calls in which no send operation has completed, \<open>getLastSentMessage\<close>
  returns \<open>undefined\<close>.
\<close>

theorem getLastSentMessage_before_any_send:
  assumes "self = createNull \<or> RealTimeServer (Some h) = Inr self"
    and "countCalls sendCompletes self xs = 0"
  shows "getLastSentMessage (run self xs) = None"
proof -
  from assms(1) have "lastSentMessage self = None"
    by (auto simp: createNull_def RealTimeServer_def unlessDefined_def)
  with run_lastSentMessage[OF assms(2)] show ?thesis
    by (simp add: getLastSentMessage_def)
qed

text \<open>A sequence with a send that fails: \<open>c2\<close> is not connected.\<close>

theorem getLastSentMessage_before_any_send_witness:
  "countCalls sendCompletes (createNull :: string state)
     [Start, ConnectNullClient ''c1'',
      SendToOneClient ''c2'' \<lparr>name = ''draw'', payload = ''p''\<rparr>,
      SimulateClientMessage ''c1'' \<lparr>name = ''draw'', payload = ''p''\<rparr>,
      DisconnectNullClient ''c1''] = 0
   \<and> getLastSentMessage
       (run (createNull :: string state)
          [Start, ConnectNullClient ''c1'',
           SendToOneClient ''c2'' \<lparr>name = ''draw'', payload = ''p''\<rparr>,
           SimulateClientMessage ''c1'' \<lparr>name = ''draw'', payload = ''p''\<rparr>,
           DisconnectNullClient ''c1'']) = None"
proof -
  have h: "countCalls sendCompletes (createNull :: string state)
     [Start, ConnectNullClient ''c1'',
      SendToOneClient ''c2'' \<lparr>name = ''draw'', payload = ''p''\<rparr>,
      SimulateClientMessage ''c1'' \<lparr>name = ''draw'', payload = ''p''\<rparr>,
      DisconnectNullClient ''c1''] = 0"
    by (simp add: eval_defs)
  have f: "(createNull :: string state) = createNull
             \<or> RealTimeServer (Some NullHttpServer) = Inr (createNull :: string state)"
    by simp
  from h getLastSentMessage_before_any_send[OF f h] show ?thesis
    by (simp only: simp_thms)
qed

subsection \<open>The registry as an association list\<close>

lemma length_update:
  "length (AList.update k v al) = (if k \<in> fst ` set al then length al else Suc (length al))"
  by (induction al) auto

lemma length_delete:
  "distinct (map fst al) \<Longrightarrow> k \<in> fst ` set al \<Longrightarrow>
   Suc (length (AList.delete k al)) = length al"
  by (induction al) (auto simp: rev_image_eqI)

lemma keys_delete: "fst ` set (AList.delete k al) = fst ` set al - {k}"
  by (induction al) auto

lemma list_all_update:
  "list_all P al \<Longrightarrow> P (k, v) \<Longrightarrow> list_all P (AList.update k v al)"
  by (induction al) auto

lemma list_all_delete: "list_all P al \<Longrightarrow> list_all P (AList.delete k al)"
  by (induction al) auto

lemma inherited_Socket:
  assumes "inherited p k = Socket sock"
  shows "p = Some sock \<and> k = ''__proto__''"
proof (cases p)
  case None
  with assms show ?thesis
    by (simp add: objectPrototypeProperty_def split: if_splits)
next
  case (Some s)
  with assms show ?thesis
    by (cases s)
       (auto simp: nullSocketProperty_def ioSocketProperty_def objectPrototypeProperty_def
             split: if_splits option.splits)
qed

lemma objectKeys_iff: "k \<in> set (objectKeys obj) \<longleftrightarrow> map_of (own obj) k \<noteq> None"
  by (simp add: objectKeys_def map_of_eq_None_iff)

subsection \<open>Connecting an id that is connected\<close>

text \<open>
  C8. For every client id that is already connected, \<open>connectNullClient\<close> with that id
  completes: afterwards the registry yields the new \<open>NullSocket\<close> for the id, one more
  \<open>CLIENT_CONNECT\<close> event has been emitted, and \<open>numberOfActiveConnections\<close> is unchanged.
\<close>

theorem connectNullClient_again:
  assumes "registeredSocket self cid = Some sock"
  shows "\<exists>self'. connectNullClient self cid = Inr self'
      \<and> registeredSocket self' cid = Some (NullSocket (Some cid))
      \<and> emitted self' = emitted self @ [CLIENT_CONNECT cid]
      \<and> numberOfActiveConnections self' = numberOfActiveConnections self"
proof (cases "map_of (own (socketIoConnections self)) cid")
  case None
  then have nokey: "cid \<notin> set (objectKeys (socketIoConnections self))"
    by (simp add: objectKeys_iff)
  from None assms have "inherited (proto (socketIoConnections self)) cid = Socket sock"
    by (simp add: registeredSocket_def getProperty_def split: jsval.splits)
  then have "cid = ''__proto__''"
    by (auto dest: inherited_Socket)
  with None nokey show ?thesis
    by (simp add: server_defs setProperty_def registeredSocket_def getProperty_def
          numberOfActiveConnections_def objectKeys_def)
next
  case (Some old)
  then have "cid \<in> set (objectKeys (socketIoConnections self))"
    by (simp add: objectKeys_iff)
  then show ?thesis
    by (simp add: server_defs setProperty_def registeredSocket_def getProperty_def
          numberOfActiveConnections_def objectKeys_def update_conv' length_update)
qed

text \<open>The id of a socket that socket.io connected: the \<open>NullSocket\<close> takes its place.\<close>

theorem connectNullClient_again_witness:
  "registeredSocket (run (constructed :: string state) [Start, IoConnection (IoSocket (Some ''c1''))])
     ''c1'' = Some (IoSocket (Some ''c1''))
   \<and> numberOfActiveConnections
        (run (constructed :: string state) [Start, IoConnection (IoSocket (Some ''c1''))]) = 1
   \<and> (\<exists>self'. connectNullClient
                 (run (constructed :: string state) [Start, IoConnection (IoSocket (Some ''c1''))])
                 ''c1'' = Inr self'
        \<and> registeredSocket self' ''c1'' = Some (NullSocket (Some ''c1''))
        \<and> emitted self' = [CLIENT_CONNECT ''c1'', CLIENT_CONNECT ''c1'']
        \<and> numberOfActiveConnections self' = 1)"
proof -
  define s where "s = run (constructed :: string state) [Start, IoConnection (IoSocket (Some ''c1''))]"
  have h: "registeredSocket s ''c1'' = Some (IoSocket (Some ''c1''))"
    by (simp add: s_def eval_defs)
  have e: "emitted s = [CLIENT_CONNECT ''c1'']" and n: "numberOfActiveConnections s = 1"
    by (simp_all add: s_def eval_defs)
  have "registeredSocket s ''c1'' = Some (IoSocket (Some ''c1''))
   \<and> numberOfActiveConnections s = 1
   \<and> (\<exists>self'. connectNullClient s ''c1'' = Inr self'
        \<and> registeredSocket self' ''c1'' = Some (NullSocket (Some ''c1''))
        \<and> emitted self' = [CLIENT_CONNECT ''c1'', CLIENT_CONNECT ''c1'']
        \<and> numberOfActiveConnections self' = 1)"
    using h connectNullClient_again[OF h] by (simp add: e n)
  then show ?thesis unfolding s_def .
qed

subsection \<open>Disconnecting a null client\<close>

text \<open>
  C6. For every client id, \<open>disconnectNullClient\<close> fails fast unless the registry yields
  a socket for the id and that socket carries the null marker; and when the registered
  socket is a real one, the call fails fast with the message about a non-null client and
  the socket is still registered afterwards.
\<close>

theorem disconnectNullClient_guard:
  "(\<not> (\<exists>s. registeredSocket self cid = Some s \<and> isNull s)
      \<longrightarrow> (\<exists>m. disconnectNullClient self cid = Inl (FailFastUnlessTrue m)))
   \<and> (registeredSocket self cid = Some sock \<and> \<not> isNull sock
      \<longrightarrow> disconnectNullClient self cid
            = Inl (FailFastUnlessTrue
                     (''Attempted to disconnect non-null client: ['' @ cid @ '']''))
          \<and> registeredSocket (exec self (DisconnectNullClient cid)) cid = Some sock)"
  by (auto simp: registeredSocket_def server_defs exec_def split: jsval.splits)

text \<open>An id that never connected, and the id of a socket that socket.io connected.\<close>

theorem disconnectNullClient_guard_witness:
  "\<not> (\<exists>s. registeredSocket (createNull :: string state) ''ghost'' = Some s \<and> isNull s)
   \<and> (\<exists>m. disconnectNullClient (createNull :: string state) ''ghost''
            = Inl (FailFastUnlessTrue m))
   \<and> registeredSocket (run (constructed :: string state) [Start, IoConnection (IoSocket (Some ''r1''))])
        ''r1'' = Some (IoSocket (Some ''r1''))
   \<and> \<not> isNull (IoSocket (Some ''r1''))
   \<and> disconnectNullClient (run (constructed :: string state) [Start, IoConnection (IoSocket (Some ''r1''))])
        ''r1''
       = Inl (FailFastUnlessTrue ''Attempted to disconnect non-null client: [r1]'')
   \<and> registeredSocket
        (exec (run (constructed :: string state) [Start, IoConnection (IoSocket (Some ''r1''))])
           (DisconnectNullClient ''r1''))
        ''r1'' = Some (IoSocket (Some ''r1''))"
proof -
  define s where "s = run (constructed :: string state) [Start, IoConnection (IoSocket (Some ''r1''))]"
  have g: "\<not> (\<exists>s. registeredSocket (createNull :: string state) ''ghost'' = Some s \<and> isNull s)"
    by (simp add: eval_defs)
  have r: "registeredSocket s ''r1'' = Some (IoSocket (Some ''r1''))"
    by (simp add: s_def eval_defs)
  have "\<not> (\<exists>s. registeredSocket (createNull :: string state) ''ghost'' = Some s \<and> isNull s)
   \<and> (\<exists>m. disconnectNullClient (createNull :: string state) ''ghost''
            = Inl (FailFastUnlessTrue m))
   \<and> registeredSocket s ''r1'' = Some (IoSocket (Some ''r1''))
   \<and> \<not> isNull (IoSocket (Some ''r1''))
   \<and> disconnectNullClient s ''r1''
       = Inl (FailFastUnlessTrue ''Attempted to disconnect non-null client: [r1]'')
   \<and> registeredSocket (exec s (DisconnectNullClient ''r1'')) ''r1'' = Some (IoSocket (Some ''r1''))"
    using g r
      disconnectNullClient_guard[of "createNull :: string state" "''ghost''"]
      disconnectNullClient_guard[of s "''r1''" "IoSocket (Some ''r1'')"]
    by simp
  then show ?thesis unfolding s_def .
qed

subsection \<open>The life cycle of null clients\<close>

lemma nullRegistry_lookup:
  assumes "nullRegistry obj"
  shows "getProperty obj k =
     (if k \<in> set (objectKeys obj) then Socket (NullSocket (Some k))
      else if k \<in> set objectPrototype then Other else Undefined)"
proof (cases "map_of (own obj) k")
  case None
  then have "k \<notin> set (objectKeys obj)"
    by (simp add: objectKeys_iff)
  with None assms show ?thesis
    by (simp add: getProperty_def nullRegistry_def objectPrototypeProperty_def)
next
  case (Some sock)
  then have entry: "(k, sock) \<in> set (own obj)"
    by (rule map_of_SomeD)
  from Some have "k \<in> set (objectKeys obj)"
    by (simp add: objectKeys_iff)
  moreover from entry assms have "sock = NullSocket (Some k)"
    by (auto simp: nullRegistry_def list_all_iff)
  ultimately show ?thesis
    using Some by (simp add: getProperty_def)
qed

lemma nullRegistry_connect:
  assumes "nullRegistry (socketIoConnections self)" and "c \<noteq> ''__proto__''"
  shows "connectNullClient self c =
     Inr (self\<lparr>socketIoConnections :=
                 (socketIoConnections self)
                   \<lparr>own := AList.update c (NullSocket (Some c)) (own (socketIoConnections self))\<rparr>,
               emitted := emitted self @ [CLIENT_CONNECT c]\<rparr>)"
  using assms by (simp add: server_defs setProperty_def nullRegistry_def)

lemma nullRegistry_disconnect:
  assumes "nullRegistry (socketIoConnections self)"
  shows "disconnectNullClient self c =
     (if c \<in> set (objectKeys (socketIoConnections self))
      then Inr (self\<lparr>socketIoConnections :=
                        (socketIoConnections self)
                          \<lparr>own := AList.delete c (own (socketIoConnections self))\<rparr>,
                      emitted := emitted self @ [CLIENT_DISCONNECT c]\<rparr>)
      else Inl (FailFastUnlessTrue
             (if c \<in> set objectPrototype
              then ''Attempted to disconnect non-null client: ['' @ c @ '']''
              else ''attempted to look up socket that isn't connected: ['' @ c @ '']'')))"
  using nullRegistry_lookup[OF assms, of c]
  by (simp add: server_defs deleteProperty_def)

lemma nullRegistry_update:
  "nullRegistry obj \<Longrightarrow>
   nullRegistry (obj\<lparr>own := AList.update c (NullSocket (Some c)) (own obj)\<rparr>)"
  by (simp add: nullRegistry_def objectKeys_def distinct_update list_all_update)

lemma nullRegistry_delete:
  "nullRegistry obj \<Longrightarrow> nullRegistry (obj\<lparr>own := AList.delete c (own obj)\<rparr>)"
  by (simp add: nullRegistry_def objectKeys_def distinct_delete list_all_delete)

lemma nullRegistry_exec:
  assumes "nullRegistry (socketIoConnections self)" and "lifecycle x"
  shows "nullRegistry (socketIoConnections (exec self x))"
proof (cases x)
  case (ConnectNullClient c)
  with assms show ?thesis
    by (simp add: exec_def nullRegistry_connect nullRegistry_update)
next
  case (DisconnectNullClient c)
  with assms show ?thesis
    by (simp add: exec_def nullRegistry_disconnect nullRegistry_delete)
qed (use assms in simp_all)

lemma count_exec:
  assumes "nullRegistry (socketIoConnections self)" and "lifecycle x"
  shows "numberOfActiveConnections (exec self x) + (if disconnects self x then 1 else 0)
       = numberOfActiveConnections self + (if connectsNewId self x then 1 else 0)"
proof (cases x)
  case (ConnectNullClient c)
  with assms show ?thesis
    by (simp add: exec_def completes_def nullRegistry_connect numberOfActiveConnections_def
          objectKeys_def length_update)
next
  case (DisconnectNullClient c)
  with assms show ?thesis
    by (auto simp: exec_def completes_def nullRegistry_disconnect numberOfActiveConnections_def
          objectKeys_def nullRegistry_def length_delete)
qed (use assms in simp_all)

lemma count_run:
  assumes "nullRegistry (socketIoConnections self)" and "list_all lifecycle xs"
  shows "numberOfActiveConnections (run self xs) + countCalls disconnects self xs
       = numberOfActiveConnections self + countCalls connectsNewId self xs"
  using assms
proof (induction xs arbitrary: self)
  case Nil
  then show ?case by simp
next
  case (Cons x xs)
  then have x: "lifecycle x" and xs: "list_all lifecycle xs"
    by simp_all
  have inv: "nullRegistry (socketIoConnections (exec self x))"
    using Cons.prems(1) x by (rule nullRegistry_exec)
  from Cons.IH[OF inv xs] count_exec[OF Cons.prems(1) x]
  show ?case by (simp split: if_splits)
qed

lemma keys_exec:
  assumes "nullRegistry (socketIoConnections self)" and "lifecycle x"
  shows "set (objectKeys (socketIoConnections (exec self x))) =
      (case x of
         ConnectNullClient d \<Rightarrow> insert d (set (objectKeys (socketIoConnections self)))
       | DisconnectNullClient d \<Rightarrow> set (objectKeys (socketIoConnections self)) - {d}
       | _ \<Rightarrow> set (objectKeys (socketIoConnections self)))"
proof (cases x)
  case (ConnectNullClient d)
  with assms show ?thesis
    by (simp add: exec_def nullRegistry_connect objectKeys_def dom_update)
next
  case (DisconnectNullClient d)
  with assms show ?thesis
    by (simp add: exec_def nullRegistry_disconnect objectKeys_def keys_delete)
qed (use assms in simp_all)

lemma nullRegistry_connected:
  assumes "nullRegistry (socketIoConnections self)" and "c \<notin> set objectPrototype"
  shows "isClientConnected self c = (c \<in> set (objectKeys (socketIoConnections self)))"
  using assms nullRegistry_lookup[OF assms(1), of c] by (simp add: isClientConnected_def)

lemma connected_exec:
  assumes "nullRegistry (socketIoConnections self)" and "lifecycle x"
    and "c \<notin> set objectPrototype"
  shows "isClientConnected (exec self x) c =
      (if x = ConnectNullClient c then True
       else if x = DisconnectNullClient c then False
       else isClientConnected self c)"
proof -
  have inv: "nullRegistry (socketIoConnections (exec self x))"
    using assms(1,2) by (rule nullRegistry_exec)
  have "isClientConnected (exec self x) c =
          (c \<in> set (objectKeys (socketIoConnections (exec self x))))"
    using inv assms(3) by (rule nullRegistry_connected)
  also have "\<dots> = (if x = ConnectNullClient c then True
        else if x = DisconnectNullClient c then False
        else c \<in> set (objectKeys (socketIoConnections self)))"
    unfolding keys_exec[OF assms(1,2)] using assms(2) by (cases x) auto
  finally show ?thesis
    by (simp add: nullRegistry_connected[OF assms(1,3)])
qed

lemma connected_run:
  assumes "nullRegistry (socketIoConnections self)" and "list_all lifecycle xs"
    and "c \<notin> set objectPrototype"
  shows "isClientConnected (run self xs) c
       = connectedNotSinceDisconnected (isClientConnected self c) c xs"
  using assms
proof (induction xs arbitrary: self)
  case Nil
  then show ?case by simp
next
  case (Cons x xs)
  then have x: "lifecycle x" and xs: "list_all lifecycle xs"
    by simp_all
  have inv: "nullRegistry (socketIoConnections (exec self x))"
    using Cons.prems(1) x by (rule nullRegistry_exec)
  from Cons.IH[OF inv xs Cons.prems(3)] connected_exec[OF Cons.prems(1) x Cons.prems(3)]
  show ?case by simp
qed

lemma nullRegistry_createNull: "nullRegistry (socketIoConnections createNull)"
  by (simp add: nullRegistry_def createNull_def objectKeys_def)

text \<open>
  The registry is keyed by id: a second connect under a connected id replaces the socket
  and adds no key, so two connects and no disconnect leave one active connection.
\<close>

theorem duplicate_connect_counts_once:
  "int (numberOfActiveConnections
          (run (createNull :: string state) [ConnectNullClient ''c1'', ConnectNullClient ''c1'']))
     \<noteq> int (countCalls connects (createNull :: string state)
              [ConnectNullClient ''c1'', ConnectNullClient ''c1''])
       - int (countCalls disconnects (createNull :: string state)
                [ConnectNullClient ''c1'', ConnectNullClient ''c1''])"
  by (simp add: eval_defs)

text \<open>
  C1, as amended. For every sequence of \<open>connectNullClient\<close> and \<open>disconnectNullClient\<close>
  calls on a server made by \<open>createNull\<close>, none of them a connect under the id
  \<open>__proto__\<close>: \<open>numberOfActiveConnections\<close> equals the number of connects that registered
  an id not registered at the time, minus the number of completed disconnects; and for
  every id that is not a property name of \<open>Object.prototype\<close>, \<open>isClientConnected\<close> holds
  exactly when the id has been connected and not since disconnected.
\<close>

theorem lifecycle_count_and_membership:
  fixes xs :: "'p op list"
  assumes "list_all lifecycle xs"
  shows "int (numberOfActiveConnections (run createNull xs))
           = int (countCalls connectsNewId createNull xs)
             - int (countCalls disconnects createNull xs)
       \<and> (c \<notin> set objectPrototype \<longrightarrow>
            isClientConnected (run createNull xs) c
              = connectedNotSinceDisconnected False c xs)"
proof -
  have "numberOfActiveConnections (createNull :: 'p state) = 0"
    by (simp add: numberOfActiveConnections_def createNull_def objectKeys_def)
  with count_run[OF nullRegistry_createNull assms]
  have count: "int (numberOfActiveConnections (run createNull xs))
           = int (countCalls connectsNewId createNull xs)
             - int (countCalls disconnects createNull xs)"
    by linarith
  have fresh: "c \<notin> set objectPrototype \<Longrightarrow> \<not> isClientConnected (createNull :: 'p state) c"
    by (simp add: nullRegistry_connected[OF nullRegistry_createNull])
       (simp add: createNull_def objectKeys_def)
  from count connected_run[OF nullRegistry_createNull assms] fresh
  show ?thesis by auto
qed

theorem lifecycle_count_and_membership_witness:
  "list_all lifecycle
     ([ConnectNullClient ''c1'', ConnectNullClient ''c2'', ConnectNullClient ''c1'',
       DisconnectNullClient ''c1'', DisconnectNullClient ''c3''] :: string op list)
   \<and> ''c2'' \<notin> set objectPrototype
   \<and> countCalls connectsNewId (createNull :: string state)
       [ConnectNullClient ''c1'', ConnectNullClient ''c2'', ConnectNullClient ''c1'',
        DisconnectNullClient ''c1'', DisconnectNullClient ''c3''] = 2
   \<and> countCalls disconnects (createNull :: string state)
       [ConnectNullClient ''c1'', ConnectNullClient ''c2'', ConnectNullClient ''c1'',
        DisconnectNullClient ''c1'', DisconnectNullClient ''c3''] = 1
   \<and> numberOfActiveConnections
       (run (createNull :: string state)
          [ConnectNullClient ''c1'', ConnectNullClient ''c2'', ConnectNullClient ''c1'',
           DisconnectNullClient ''c1'', DisconnectNullClient ''c3'']) = 1
   \<and> isClientConnected
       (run (createNull :: string state)
          [ConnectNullClient ''c1'', ConnectNullClient ''c2'', ConnectNullClient ''c1'',
           DisconnectNullClient ''c1'', DisconnectNullClient ''c3'']) ''c2''"
proof -
  define xs :: "string op list" where
    "xs = [ConnectNullClient ''c1'', ConnectNullClient ''c2'', ConnectNullClient ''c1'',
           DisconnectNullClient ''c1'', DisconnectNullClient ''c3'']"
  have l: "list_all lifecycle xs"
    by (simp add: xs_def)
  have p: "''c2'' \<notin> set objectPrototype"
    by (simp add: objectPrototype_def)
  have n: "countCalls connectsNewId (createNull :: string state) xs = 2"
    by (simp add: xs_def eval_defs)
  have d: "countCalls disconnects (createNull :: string state) xs = 1"
    by (simp add: xs_def eval_defs)
  have m: "connectedNotSinceDisconnected False ''c2'' xs"
    by (simp add: xs_def)
  have "list_all lifecycle xs \<and> ''c2'' \<notin> set objectPrototype
     \<and> countCalls connectsNewId (createNull :: string state) xs = 2
     \<and> countCalls disconnects (createNull :: string state) xs = 1
     \<and> numberOfActiveConnections (run (createNull :: string state) xs) = 1
     \<and> isClientConnected (run (createNull :: string state) xs) ''c2''"
    using l p n d m lifecycle_count_and_membership[OF l, of "''c2''"]
    by simp
  then show ?thesis unfolding xs_def .
qed

subsection \<open>Ids that are property names of the registry's prototype\<close>

text \<open>
  The registry is an ordinary object, so a lookup also finds what the object inherits.
  While \<open>Object.prototype\<close> is the prototype and the id is not one of its property names,
  the server does forget a client that connects and disconnects: the id is no key, the
  lookup fails fast, and \<open>isClientConnected\<close> is false.
\<close>

lemma connect_then_disconnect_forgets:
  assumes "proto (socketIoConnections self) = None" and "cid \<notin> set objectPrototype"
  shows "cid \<notin> set (objectKeys (socketIoConnections
                  (run self [ConnectNullClient cid, DisconnectNullClient cid])))
     \<and> \<not> isClientConnected (run self [ConnectNullClient cid, DisconnectNullClient cid]) cid
     \<and> lookUpSocket (run self [ConnectNullClient cid, DisconnectNullClient cid]) cid
         = Inl (FailFastUnlessTrue
                  (''attempted to look up socket that isn't connected: ['' @ cid @ '']''))"
proof -
  from assms(2) have plain: "cid \<noteq> ''__proto__''"
    by (auto simp: objectPrototype_def)
  have connect: "exec self (ConnectNullClient cid) =
      self\<lparr>socketIoConnections :=
              (socketIoConnections self)
                \<lparr>own := AList.update cid (NullSocket (Some cid)) (own (socketIoConnections self))\<rparr>,
           emitted := emitted self @ [CLIENT_CONNECT cid]\<rparr>"
    using assms(1) plain by (simp add: exec_def server_defs setProperty_def)
  have "run self [ConnectNullClient cid, DisconnectNullClient cid]
          = exec (exec self (ConnectNullClient cid)) (DisconnectNullClient cid)"
    by simp
  also have "\<dots> =
      self\<lparr>socketIoConnections :=
              (socketIoConnections self)\<lparr>own := AList.delete cid (own (socketIoConnections self))\<rparr>,
           emitted := emitted self @ [CLIENT_CONNECT cid, CLIENT_DISCONNECT cid]\<rparr>"
    unfolding connect
    by (simp add: exec_def server_defs getProperty_def deleteProperty_def
          update_conv' delete_update_same)
  finally have disconnect: "run self [ConnectNullClient cid, DisconnectNullClient cid] =
      self\<lparr>socketIoConnections :=
              (socketIoConnections self)\<lparr>own := AList.delete cid (own (socketIoConnections self))\<rparr>,
           emitted := emitted self @ [CLIENT_CONNECT cid, CLIENT_DISCONNECT cid]\<rparr>" .
  have gone: "map_of (AList.delete cid (own (socketIoConnections self))) cid = None"
    by (simp add: delete_conv')
  show ?thesis
    unfolding disconnect using assms gone
    by (simp add: objectKeys_iff isClientConnected_def lookUpSocket_def
          getProperty_def unlessTrue_def objectPrototypeProperty_def)
qed

text \<open>
  C5, evaluated at two ids that the prototype of the registry holds. For \<open>toString\<close>, a
  property name of \<open>Object.prototype\<close>, the connect and the disconnect both complete and
  leave no key, so \<open>numberOfActiveConnections\<close> is 0; but the lookup of the id finds the
  inherited function: it does not fail, and \<open>isClientConnected\<close> returns true. For
  \<open>__proto__\<close> the connect makes the socket the prototype of the registry, the
  disconnect completes and deletes nothing, and the lookup still yields the socket.
\<close>

theorem connect_then_disconnect_inherited_name:
  "countCalls connects (createNull :: string state)
     [ConnectNullClient ''toString'', DisconnectNullClient ''toString''] = 1
   \<and> countCalls disconnects (createNull :: string state)
       [ConnectNullClient ''toString'', DisconnectNullClient ''toString''] = 1
   \<and> ''toString'' \<notin> set (objectKeys (socketIoConnections
         (run (createNull :: string state)
            [ConnectNullClient ''toString'', DisconnectNullClient ''toString''])))
   \<and> numberOfActiveConnections
       (run (createNull :: string state)
          [ConnectNullClient ''toString'', DisconnectNullClient ''toString'']) = 0
   \<and> isClientConnected
       (run (createNull :: string state)
          [ConnectNullClient ''toString'', DisconnectNullClient ''toString'']) ''toString''
   \<and> lookUpSocket
       (run (createNull :: string state)
          [ConnectNullClient ''toString'', DisconnectNullClient ''toString'']) ''toString''
       = Inr Other
   \<and> countCalls disconnects (createNull :: string state)
       [ConnectNullClient ''__proto__'', DisconnectNullClient ''__proto__''] = 1
   \<and> lookUpSocket
       (run (createNull :: string state)
          [ConnectNullClient ''__proto__'', DisconnectNullClient ''__proto__'']) ''__proto__''
       = Inr (Socket (NullSocket (Some ''__proto__'')))"
  by (simp add: eval_defs)

subsection \<open>Sending to an id that is not registered\<close>

text \<open>
  \<open>broadcastToAllClientsButOne\<close> throws whenever the registry yields no socket for the id:
  the lookup fails fast, or it yields a value that has no \<open>broadcast\<close> property.
\<close>

lemma broadcastToAllClientsButOne_unregistered_fails:
  assumes "registeredSocket self cid = None"
  shows "(\<exists>e. broadcastToAllClientsButOne self cid msg = Inl e)
     \<and> exec self (BroadcastToAllClientsButOne cid msg) = self"
  using assms
  by (auto simp: registeredSocket_def exec_def broadcastToAllClientsButOne_def
        lookUpSocket_def unlessTrue_def split: jsval.splits)

text \<open>
  So does \<open>sendToOneClient\<close> while \<open>Object.prototype\<close> is the prototype of the registry:
  the lookup fails fast, or it yields an inherited value that has no \<open>emit\<close>.
\<close>

lemma sendToOneClient_unregistered_fails:
  assumes "proto (socketIoConnections self) = None"
    and "registeredSocket self cid = None"
  shows "(\<exists>e. sendToOneClient self cid msg = Inl e)
     \<and> exec self (SendToOneClient cid msg) = self"
proof -
  from assms have "getProperty (socketIoConnections self) cid = Other
      \<or> getProperty (socketIoConnections self) cid = Undefined"
    by (auto simp: registeredSocket_def getProperty_def objectPrototypeProperty_def
          split: option.splits)
  then show ?thesis
    by (auto simp: exec_def sendToOneClient_def lookUpSocket_def unlessTrue_def)
qed

text \<open>
  For an inherited name the lookup itself does not fail, on a fresh server either: the
  error of the send is the \<open>TypeError\<close> of calling \<open>emit\<close> on the inherited value.
\<close>

lemma sendToOneClient_inherited_name:
  "lookUpSocket (createNull :: string state) ''toString'' = Inr Other
   \<and> sendToOneClient (createNull :: string state) ''toString''
        \<lparr>name = ''draw'', payload = ''p''\<rparr> = Inl TypeError"
  by (simp add: eval_defs)

text \<open>
  C2, evaluated after a connect under the id \<open>__proto__\<close>. The assignment in
  \<open>connectClient\<close> makes the \<open>NullSocket\<close> the prototype of the registry and adds no key.
  From then on the lookup of the id \<open>broadcast\<close>, which never connected, finds what the
  getter \<open>broadcast\<close> of \<open>NullSocket\<close> returns, an object with an \<open>emit\<close> method: the
  registry yields no socket for the id, and yet \<open>sendToOneClient\<close> completes, records
  the send and emits \<open>SERVER_MESSAGE\<close>.
\<close>

theorem sendToOneClient_after_proto_connect:
  "numberOfActiveConnections
     (exec (createNull :: string state) (ConnectNullClient ''__proto__'')) = 0
   \<and> registeredSocket (exec (createNull :: string state) (ConnectNullClient ''__proto__''))
        ''broadcast'' = None
   \<and> completes (exec (createNull :: string state) (ConnectNullClient ''__proto__''))
        (SendToOneClient ''broadcast'' \<lparr>name = ''draw'', payload = ''p''\<rparr>)
   \<and> getLastSentMessage
        (exec (exec (createNull :: string state) (ConnectNullClient ''__proto__''))
           (SendToOneClient ''broadcast'' \<lparr>name = ''draw'', payload = ''p''\<rparr>))
       = Some \<lparr>message = \<lparr>name = ''draw'', payload = ''p''\<rparr>, clientId = Some ''broadcast'',
               type = ONE_CLIENT\<rparr>
   \<and> emitted
        (exec (exec (createNull :: string state) (ConnectNullClient ''__proto__''))
           (SendToOneClient ''broadcast'' \<lparr>name = ''draw'', payload = ''p''\<rparr>))
       = [CLIENT_CONNECT ''__proto__'',
          SERVER_MESSAGE \<lparr>message = \<lparr>name = ''draw'', payload = ''p''\<rparr>,
                          clientId = Some ''broadcast'', type = ONE_CLIENT\<rparr>]"
  by (simp add: eval_defs)

end
